theory Spec2Isabelle
  imports Main
begin

section \<open>JavaScript and Node primitives used by the sources\<close>

text \<open>Number to string, for integers: \<open>'' + n\<close>, \<open>n.toString()\<close>.\<close>

definition digit_char :: "nat \<Rightarrow> char" where
  "digit_char n = ''0123456789'' ! (n mod 10)"

function show_nat :: "nat \<Rightarrow> string" where
  "show_nat n = (if n < 10 then [digit_char n] else show_nat (n div 10) @ [digit_char n])"
  by pat_completeness auto
termination
  by (relation "measure id") auto

declare show_nat.simps [simp del]

definition show_int :: "int \<Rightarrow> string" where
  "show_int i = (if i < 0 then CHR ''-'' # show_nat (nat (- i)) else show_nat (nat i))"

definition CRLF :: string where
  "CRLF = [CHR 0x0D, CHR 0x0A]"

text \<open>
  An object used as a dictionary with string keys keeps its keys in insertion order:
  assigning to an existing key keeps the key's place, \<open>delete\<close> removes the entry.
\<close>

fun obj_set :: "(string \<times> 'v) list \<Rightarrow> string \<Rightarrow> 'v \<Rightarrow> (string \<times> 'v) list" where
  "obj_set [] k v = [(k, v)]"
| "obj_set ((k', v') # kvs) k v = (if k' = k then (k, v) # kvs else (k', v') # obj_set kvs k v)"

definition obj_delete :: "(string \<times> 'v) list \<Rightarrow> string \<Rightarrow> (string \<times> 'v) list" where
  "obj_delete kvs k = filter (\<lambda>kv. fst kv \<noteq> k) kvs"

definition obj_get :: "(string \<times> 'v) list \<Rightarrow> string \<Rightarrow> 'v option" where
  "obj_get kvs k = map_of kvs k"

text \<open>
  \<open>str.replace(pattern, replacement)\<close> with a string pattern: the first occurrence
  of the pattern is replaced by the expansion of the replacement, in which \<open>$$\<close> is
  a dollar sign, \<open>$&\<close> the matched text, \<open>$`\<close> the text before the match and
  \<open>$'\<close> the text after it; there are no capture groups, so any other \<open>$\<close>
  stands for itself.
\<close>

fun index_of :: "string \<Rightarrow> string \<Rightarrow> nat option" where
  "index_of [] pattern = (if pattern = [] then Some 0 else None)"
| "index_of (x # xs) pattern =
     (if take (length pattern) (x # xs) = pattern then Some 0
      else map_option Suc (index_of xs pattern))"

fun get_substitution :: "string \<Rightarrow> string \<Rightarrow> string \<Rightarrow> string \<Rightarrow> string" where
  "get_substitution [] matched preceding following = []"
| "get_substitution [c] matched preceding following = [c]"
| "get_substitution (c # d # rest) matched preceding following =
     (if c = CHR ''$'' \<and> d = CHR ''$'' then CHR ''$'' # get_substitution rest matched preceding following
      else if c = CHR ''$'' \<and> d = CHR ''&'' then matched @ get_substitution rest matched preceding following
      else if c = CHR ''$'' \<and> d = CHR 0x60 then preceding @ get_substitution rest matched preceding following
      else if c = CHR ''$'' \<and> d = CHR 0x27 then following @ get_substitution rest matched preceding following
      else c # get_substitution (d # rest) matched preceding following)"

definition js_replace :: "string \<Rightarrow> string \<Rightarrow> string \<Rightarrow> string" where
  "js_replace str pattern replacement =
     (case index_of str pattern of
        None \<Rightarrow> str
      | Some i \<Rightarrow>
          take i str
          @ get_substitution replacement pattern (take i str) (drop (i + length pattern) str)
          @ drop (i + length pattern) str)"

text \<open>
  \<open>path.normalize\<close> of Node, POSIX flavour. \<open>normalizeString\<close> walks the segments
  between slashes: empty segments and \<open>.\<close> vanish, \<open>..\<close> removes the segment
  before it, and is kept only above the start of a relative path.
\<close>

fun split_on :: "char \<Rightarrow> string \<Rightarrow> string list" where
  "split_on sep [] = [[]]"
| "split_on sep (x # xs) =
     (if x = sep then [] # split_on sep xs
      else (case split_on sep xs of item # items \<Rightarrow> (x # item) # items | [] \<Rightarrow> [[x]]))"

fun join_with :: "string \<Rightarrow> string list \<Rightarrow> string" where
  "join_with sep [] = []"
| "join_with sep [x] = x"
| "join_with sep (x # y # zs) = x @ sep @ join_with sep (y # zs)"

fun normalizeString :: "bool \<Rightarrow> string list \<Rightarrow> string list \<Rightarrow> string list" where
  "normalizeString allowAboveRoot res [] = rev res"
| "normalizeString allowAboveRoot res (seg # segs) =
     (if seg = [] \<or> seg = ''.'' then normalizeString allowAboveRoot res segs
      else if seg = ''..'' then
        (case res of
           lastSegment # res' \<Rightarrow>
             if lastSegment \<noteq> ''..'' then normalizeString allowAboveRoot res' segs
             else if allowAboveRoot then normalizeString allowAboveRoot (''..'' # res) segs
             else normalizeString allowAboveRoot res segs
         | [] \<Rightarrow>
             if allowAboveRoot then normalizeString allowAboveRoot [''..''] segs
             else normalizeString allowAboveRoot [] segs)
      else normalizeString allowAboveRoot (seg # res) segs)"

definition normalize :: "string \<Rightarrow> string" where
  "normalize p =
     (if p = [] then ''.''
      else
        let isAbsolute = (hd p = CHR ''/'');
            trailingSeparator = (last p = CHR ''/'');
            q = join_with ''/'' (normalizeString (\<not> isAbsolute) [] (split_on (CHR ''/'') p))
        in if q = [] then (if isAbsolute then ''/'' else if trailingSeparator then ''./'' else ''.'')
           else (if isAbsolute then CHR ''/'' # q else q) @ (if trailingSeparator then ''/'' else []))"

section \<open>Middleware chain: \<open>Util.compose\<close> (modules/util/util.ts)\<close>

text \<open>
  A middleware is an asynchronous function of the context and a continuation \<open>next\<close>.
  Its body is modelled as a script of the things it can do with the continuation:
  an observable step of its own, \<open>await next()\<close> (an error thrown below propagates),
  \<open>try { await next() } catch { }\<close> (an error thrown below is swallowed), and a
  \<open>throw\<close> of its own.
\<close>

datatype chain_error = NextCalledMultipleTimes | MiddlewareError nat

datatype action = Act nat | AwaitNext | TryNext | Raise nat

type_synonym middleware = "action list"

datatype event = Entered nat | Did nat nat | OuterNext

text \<open>
  The closure of one invocation of the composed middleware: the variable \<open>index\<close>
  and what has been observed so far.
\<close>

record closure =
  index :: int
  trace :: "event list"

text \<open>
  \<open>dispatch i\<close>: throws when \<open>i <= index\<close>, otherwise stores \<open>i\<close>, and runs
  \<open>middlewares[i]\<close> with the continuation \<open>dispatch (i + 1)\<close>; at
  \<open>i = middlewares.length\<close> it awaits the outer \<open>next\<close>; beyond that it does
  nothing. \<open>run_route i\<close> is the body of \<open>middlewares[i]\<close>.
\<close>

function dispatch :: "middleware list \<Rightarrow> nat \<Rightarrow> closure \<Rightarrow> (chain_error + unit) \<times> closure"
  and run_route :: "middleware list \<Rightarrow> nat \<Rightarrow> action list \<Rightarrow> closure \<Rightarrow> (chain_error + unit) \<times> closure"
where
  "dispatch middlewares i c =
     (if int i \<le> index c then (Inl NextCalledMultipleTimes, c)
      else let c1 = c\<lparr>index := int i\<rparr> in
        if i < length middlewares
        then run_route middlewares i (middlewares ! i) (c1\<lparr>trace := trace c1 @ [Entered i]\<rparr>)
        else if i = length middlewares
        then (Inr (), c1\<lparr>trace := trace c1 @ [OuterNext]\<rparr>)
        else (Inr (), c1))"
| "run_route middlewares i [] c = (Inr (), c)"
| "run_route middlewares i (Act a # rest) c =
     run_route middlewares i rest (c\<lparr>trace := trace c @ [Did i a]\<rparr>)"
| "run_route middlewares i (AwaitNext # rest) c =
     (case dispatch middlewares (i + 1) c of
        (Inl e, c') \<Rightarrow> (Inl e, c')
      | (Inr u, c') \<Rightarrow> run_route middlewares i rest c')"
| "run_route middlewares i (TryNext # rest) c =
     (case dispatch middlewares (i + 1) c of
        (r, c') \<Rightarrow> run_route middlewares i rest c')"
| "run_route middlewares i (Raise n # rest) c = (Inl (MiddlewareError n), c)"
  by pat_completeness auto
termination
  by (relation "measures
       [\<lambda>x. case x of
          Inl (ms, i, c) \<Rightarrow> (if i \<le> length ms then 2 * (length ms + 1 - i) + 2 else 0)
        | Inr (ms, i, as, c) \<Rightarrow> (if i \<le> length ms then 2 * (length ms + 1 - i) + 1 else 1),
        \<lambda>x. case x of Inl _ \<Rightarrow> 0 | Inr (ms, i, as, c) \<Rightarrow> length as]")
     auto

text \<open>
  The composed middleware: each invocation starts its own \<open>index\<close> at \<open>-1\<close> and
  awaits \<open>dispatch 0\<close>.
\<close>

definition compose :: "middleware list \<Rightarrow> event list \<Rightarrow> (chain_error + unit) \<times> event list" where
  "compose middlewares seen =
     (case dispatch middlewares 0 \<lparr>index = - 1, trace = seen\<rparr> of (r, c) \<Rightarrow> (r, trace c))"

text \<open>
  What one stretch of execution may have done to the closure: the index never goes
  down, the trace only grows, a middleware is entered only when the index passes its
  position, and the outer continuation only when the index passes the length.
\<close>

definition advanced :: "nat \<Rightarrow> closure \<Rightarrow> closure \<Rightarrow> bool" where
  "advanced n c c' \<longleftrightarrow>
     index c \<le> index c' \<and>
     (\<exists>ev. trace c' = trace c @ ev \<and>
        (\<forall>k. count_list ev (Entered k) \<le> (if index c < int k \<and> int k \<le> index c' then 1 else 0)) \<and>
        count_list ev OuterNext \<le> (if index c < int n \<and> int n \<le> index c' then 1 else 0))"

section \<open>Upgradable response: \<open>UpgradableResponse\<close> (src/lib/response)\<close>

datatype wire = Sent string | SocketEnd

record websocket_client =
  readyState :: nat
  closeCode :: "int option"

record response =
  upgraded :: bool
  socket :: "wire list"
  finished :: bool
  headersSent :: bool
  headers :: "(string \<times> string) list"
  statusCode :: int
  statusMessage :: string
  websocket :: "websocket_client option"

datatype response_error =
    HeadersAlreadySent
  | HeadersOrMessageRequired
  | HeadersMustNotBeArray
  | StatusCodeDoesNotExist int

text \<open>The constructor. The field \<open>socket\<close> of the model is what has been written to the socket.\<close>

definition new_response :: response where
  "new_response = \<lparr>upgraded = False, socket = [], finished = False, headersSent = False,
     headers = [], statusCode = 200, statusMessage = [], websocket = None\<rparr>"

text \<open>
  The arguments of \<open>writeHead(code, message, headers)\<close>: \<open>headers\<close> is an object, an
  array or \<open>undefined\<close>; \<open>message\<close> is a string or one of those.
\<close>

datatype headers_arg = Undefined | HeaderObject "(string \<times> string) list" | HeaderArray "string list"

datatype message_arg = Message string | NotString headers_arg

fun headers_truthy :: "headers_arg \<Rightarrow> bool" where
  "headers_truthy Undefined = False"
| "headers_truthy (HeaderObject h) = True"
| "headers_truthy (HeaderArray a) = True"

fun message_truthy :: "message_arg \<Rightarrow> bool" where
  "message_truthy (Message m) = (m \<noteq> [])"
| "message_truthy (NotString h) = headers_truthy h"

fun header_lines :: "headers_arg \<Rightarrow> wire list" where
  "header_lines (HeaderObject h) = map (\<lambda>(name, v). Sent (name @ '': '' @ v @ CRLF)) h"
| "header_lines _ = []"

text \<open>
  \<open>getStatusText\<close> of the package http-status-codes is a parameter: the reason phrase
  of a status code, or nothing where the package throws for a code it does not know.
\<close>

definition writeHead ::
  "(int \<Rightarrow> string option) \<Rightarrow> int \<Rightarrow> message_arg \<Rightarrow> headers_arg \<Rightarrow> response
     \<Rightarrow> response_error + response" where
  "writeHead getStatusText code message hdrs r =
     (if headersSent r then Inl HeadersAlreadySent
      else if \<not> headers_truthy hdrs \<and> \<not> message_truthy message then Inl HeadersOrMessageRequired
      else
        let hdrs1 = (case message of Message m \<Rightarrow> hdrs | NotString h \<Rightarrow> h);
            message1 = (case message of Message m \<Rightarrow> m | NotString h \<Rightarrow> [])
        in case hdrs1 of
             HeaderArray a \<Rightarrow> Inl HeadersMustNotBeArray
           | _ \<Rightarrow>
             if \<not> upgraded r then
               (case (if message1 \<noteq> [] then Some message1 else getStatusText code) of
                  None \<Rightarrow> Inl (StatusCodeDoesNotExist code)
                | Some reason \<Rightarrow>
                    Inr (r\<lparr>socket := socket r
                              @ [Sent (''HTTP/1.1 '' @ show_int code @ '' '' @ reason @ CRLF)]
                              @ header_lines hdrs1 @ [Sent CRLF],
                           headersSent := True\<rparr>))
             else Inr (r\<lparr>headersSent := True\<rparr>))"

text \<open>
  \<open>_write(chunk)\<close>, named \<open>response_write\<close> here; the chunk is a buffer or
  \<open>null\<close>. Closing the WebSocket records the close code and leaves the state OPEN (1)
  for CLOSING (2).
\<close>

definition response_write :: "(int \<Rightarrow> string option) \<Rightarrow> string option \<Rightarrow> response \<Rightarrow> response_error + response" where
  "response_write getStatusText chunk r =
     (case (if \<not> headersSent r
            then writeHead getStatusText (statusCode r) (Message (statusMessage r)) (HeaderObject (headers r)) r
            else Inr r) of
        Inl e \<Rightarrow> Inl e
      | Inr r1 \<Rightarrow>
          if upgraded r1 then
            (case websocket r1 of
               Some ws \<Rightarrow>
                 if chunk = None \<and> readyState ws = 1
                 then Inr (r1\<lparr>websocket := Some (ws\<lparr>readyState := 2,
                             closeCode := Some (if statusCode r1 = 500 then 1011 else 1000)\<rparr>)\<rparr>)
                 else Inr r1
             | None \<Rightarrow> Inr r1)
          else
            (case chunk of
               None \<Rightarrow> Inr (r1\<lparr>socket := socket r1 @ [SocketEnd]\<rparr>)
             | Some data \<Rightarrow> Inr (r1\<lparr>socket := socket r1 @ [Sent data]\<rparr>)))"

definition removeHeader :: "string \<Rightarrow> response \<Rightarrow> response_error + response" where
  "removeHeader name r =
     (if headersSent r then Inl HeadersAlreadySent
      else Inr (r\<lparr>headers := obj_delete (headers r) name\<rparr>))"

definition setHeader :: "string \<Rightarrow> string \<Rightarrow> response \<Rightarrow> response_error + response" where
  "setHeader name v r =
     (if headersSent r then Inl HeadersAlreadySent
      else Inr (r\<lparr>headers := obj_set (headers r) name v\<rparr>))"

text \<open>
  \<open>upgrade(req)\<close> up to the return of its promise; the handshake of the WebSocket
  server completes later and stores the client (\<open>handshake_done\<close>).
\<close>

definition upgrade :: "response \<Rightarrow> response_error + response" where
  "upgrade r = (if headersSent r then Inl HeadersAlreadySent else Inr (r\<lparr>upgraded := True\<rparr>))"

definition handshake_done :: "websocket_client \<Rightarrow> response \<Rightarrow> response" where
  "handshake_done client r = r\<lparr>websocket := Some client\<rparr>"

text \<open>The listener of the stream's \<open>finish\<close> event.\<close>

definition on_finish :: "(int \<Rightarrow> string option) \<Rightarrow> response \<Rightarrow> response_error + response" where
  "on_finish getStatusText r =
     (case response_write getStatusText None r of Inl e \<Rightarrow> Inl e | Inr r1 \<Rightarrow> Inr (r1\<lparr>finished := True\<rparr>))"

text \<open>
  What the rest of the server can do with a response, and a sequence of such calls. A
  call that throws leaves the response as it was, and the caller may go on.
\<close>

datatype response_call =
    Write "string option"
  | RemoveHeader string
  | SetHeader string string
  | WriteHead int message_arg headers_arg
  | Upgrade
  | HandshakeDone websocket_client
  | Finish

fun call :: "(int \<Rightarrow> string option) \<Rightarrow> response_call \<Rightarrow> response \<Rightarrow> response_error + response" where
  "call g (Write chunk) r = response_write g chunk r"
| "call g (RemoveHeader name) r = removeHeader name r"
| "call g (SetHeader name v) r = setHeader name v r"
| "call g (WriteHead code message hdrs) r = writeHead g code message hdrs r"
| "call g Upgrade r = upgrade r"
| "call g (HandshakeDone client) r = Inr (handshake_done client r)"
| "call g Finish r = on_finish g r"

fun calls :: "(int \<Rightarrow> string option) \<Rightarrow> response_call list \<Rightarrow> response \<Rightarrow> response" where
  "calls g [] r = r"
| "calls g (c # cs) r = calls g cs (case call g c r of Inl e \<Rightarrow> r | Inr r' \<Rightarrow> r')"

section \<open>Request context\<close>

text \<open>
  The hosts of a route: a string, a list of strings or a regular expression (source and
  flags).
\<close>

datatype site_like = Site string | SiteList "string list" | SiteRegExp string string

text \<open>
  A URL as the WHATWG class \<open>URL\<close> presents it: \<open>protocol\<close> ends with a colon,
  \<open>port\<close> is empty for the default port, \<open>search\<close> is empty or starts with a
  question mark.
\<close>

record url =
  protocol :: string
  url_hostname :: string
  port :: string
  pathname :: string
  search :: string

text \<open>
  A body is a string, a buffer, or a read stream of a file, whole or from \<open>start\<close> to
  \<open>end\<close> inclusive.
\<close>

datatype body = BodyString string | BodyBuffer string | ReadStream string "(int \<times> int) option"

datatype error = HttpError int string | Error string | TypeError string

text \<open>
  The part of the Koa context the handlers read and write. \<open>ctx.set\<close>,
  \<open>ctx.status\<close>, \<open>ctx.body\<close>, \<open>ctx.type\<close> and \<open>ctx.path\<close> are modelled as
  plain fields; \<open>logged\<close> collects the calls of \<open>ctx.log(...)\<close> without the
  colouring of the loggers; \<open>log_enabled\<close> is the truth value of \<open>ctx.log\<close> and
  \<open>can_upgrade\<close> that of \<open>ctx.upgrade instanceof Function\<close>.
\<close>

record koa_context =
  request_method :: string
  href :: url
  hostname :: string
  path :: string
  req_headers :: "(string \<times> string) list"
  ws :: bool
  can_upgrade :: bool
  status :: int
  body :: "body option"
  res_headers :: "(string \<times> string) list"
  ctype :: string
  handler :: "string option"
  site :: "site_like option"
  error_attr :: "error option"
  log_enabled :: bool
  logged :: "string list list"
  bytes :: "nat option"

text \<open>
  A middleware receives the context and the continuation and returns the context it
  leaves, or throws.
\<close>

type_synonym continuation = "koa_context \<Rightarrow> error + koa_context"

type_synonym koa_middleware = "koa_context \<Rightarrow> continuation \<Rightarrow> error + koa_context"

definition ctx_log :: "string list \<Rightarrow> koa_context \<Rightarrow> koa_context" where
  "ctx_log msgs ctx = ctx\<lparr>logged := logged ctx @ [msgs]\<rparr>"

definition ctx_set :: "string \<Rightarrow> string \<Rightarrow> koa_context \<Rightarrow> koa_context" where
  "ctx_set name v ctx = ctx\<lparr>res_headers := obj_set (res_headers ctx) name v\<rparr>"

section \<open>Host router: \<open>SiteRouter\<close> (modules/router/router.ts)\<close>



section \<open>Config binding: \<open>Router.use\<close>, \<open>Router.parseSiteConfig\<close>, \<open>SiteRouter.get\<close>\<close>


text \<open>
  The match of \<open>/^\/(.*)\/(.*)$/\<close>: a slash, then as much as possible up to the last
  slash, then the rest; the dot matches no line terminator.
\<close>

definition line_terminator :: "char \<Rightarrow> bool" where
  "line_terminator ch \<longleftrightarrow> ch = CHR 0x0A \<or> ch = CHR 0x0D"


datatype config_error = InvalidRegularExpressionPath | RegExpSyntaxError string string | RouteError string






section \<open>Rewrite: \<open>PathRouter.addRewrite\<close>\<close>


section \<open>Reverse proxy: \<open>proxy\<close>, \<open>request\<close>, \<open>wsforward\<close>\<close>

subsection \<open>The accessors of \<open>URL\<close> the proxy uses\<close>

definition url_host :: "url \<Rightarrow> string" where
  "url_host u = url_hostname u @ (if port u = [] then [] else CHR '':'' # port u)"

definition url_href :: "url \<Rightarrow> string" where
  "url_href u = protocol u @ ''//'' @ url_host u @ pathname u @ search u"

definition default_port :: "string \<Rightarrow> string" where
  "default_port scheme =
     (if scheme = ''http:'' \<or> scheme = ''ws:'' then ''80''
      else if scheme = ''https:'' \<or> scheme = ''wss:'' then ''443''
      else if scheme = ''ftp:'' then ''21''
      else [])"

definition special_scheme :: "string \<Rightarrow> bool" where
  "special_scheme scheme \<longleftrightarrow>
     scheme = ''http:'' \<or> scheme = ''https:'' \<or> scheme = ''ws:'' \<or> scheme = ''wss:'' \<or>
     scheme = ''ftp:'' \<or> scheme = ''file:''"

text \<open>
  \<open>url.host = base.host\<close>: the host name is taken over; the port is taken over when
  \<open>base.host\<close> has one (and dropped when it is the default port of the scheme of
  \<open>url\<close>), and kept when \<open>base.host\<close> has none.
\<close>

definition set_host :: "url \<Rightarrow> url \<Rightarrow> url" where
  "set_host u base =
     u\<lparr>url_hostname := url_hostname base,
       port := (if port base = [] then port u
                else if port base = default_port (protocol u) then []
                else port base)\<rparr>"

text \<open>
  \<open>url.protocol = scheme\<close>: ignored between a special and a non-special scheme; a
  port that is the default port of the new scheme is dropped.
\<close>

definition set_protocol :: "url \<Rightarrow> string \<Rightarrow> url" where
  "set_protocol u scheme =
     (if special_scheme scheme = special_scheme (protocol u)
      then u\<lparr>protocol := scheme, port := (if port u = default_port scheme then [] else port u)\<rparr>
      else u)"

subsection \<open>\<open>Util.filter\<close>\<close>

definition filter_keys :: "(string \<times> 'v) list \<Rightarrow> (string \<Rightarrow> bool) \<Rightarrow> (string \<times> 'v) list" where
  "filter_keys obj predicate = filter (\<lambda>x. predicate (fst x)) obj"

subsection \<open>\<open>request\<close>\<close>

text \<open>
  What \<open>http.request\<close> is given, and what the upstream answers. The upstream is a
  parameter: for a request it gives the response, or the error of the \<open>error\<close>
  event (which a timeout also ends in).
\<close>

record client_request =
  target :: url
  out_method :: string
  out_headers :: "(string \<times> string) list"
  out_timeout :: int

record incoming_message =
  in_statusCode :: "int option"
  in_headers :: "(string \<times> string) list"
  chunks :: "string list"

text \<open>\<open>{ host: url.hostname, ...options.headers }\<close>.\<close>

definition spread_headers :: "url \<Rightarrow> (string \<times> string) list \<Rightarrow> (string \<times> string) list" where
  "spread_headers u hdrs = fold (\<lambda>(k, v) obj. obj_set obj k v) hdrs [(''host'', url_hostname u)]"

definition request ::
  "(client_request \<Rightarrow> error + incoming_message) \<Rightarrow> url \<Rightarrow> (string \<times> string) list \<Rightarrow> string \<Rightarrow> int
     \<Rightarrow> error + (incoming_message \<times> string)" where
  "request http_request u hdrs meth tmo =
     (if protocol u = ''http:'' \<or> protocol u = ''https:''
      then (case http_request \<lparr>target = u, out_method = meth, out_headers = spread_headers u hdrs,
                       out_timeout = tmo\<rparr> of
              Inl e \<Rightarrow> Inl e
            | Inr res \<Rightarrow> Inr (res, concat (chunks res)))
      else Inl (Error (''Invalid protocol '' @ protocol u)))"

subsection \<open>\<open>wsforward\<close>\<close>

text \<open>
  What the two sockets and the upgrade of the client do, in the order of their events.
  The promise of \<open>wsforward\<close> is settled by the first event that rejects or resolves
  it; events without a listener pass. Without such an event it stays pending.
\<close>

datatype ws_event =
    UpstreamError string
  | UpstreamOpen
  | UpgradeResolved
  | UpgradeRejected string
  | UpstreamClose
  | ClientClose
  | ClientError string
  | UpstreamMessage nat
  | ClientMessage nat

datatype ws_phase = Connecting | Upgrading | Bridged

fun wsforward_from :: "ws_phase \<Rightarrow> nat \<Rightarrow> ws_event list \<Rightarrow> (string + nat) option" where
  "wsforward_from phase stat [] = None"
| "wsforward_from phase stat (UpstreamError e # events) = Some (Inl e)"
| "wsforward_from Connecting stat (UpstreamOpen # events) = wsforward_from Upgrading stat events"
| "wsforward_from Upgrading stat (UpgradeResolved # events) = wsforward_from Bridged stat events"
| "wsforward_from Upgrading stat (UpgradeRejected e # events) = Some (Inl e)"
| "wsforward_from Bridged stat (ClientError e # events) = Some (Inl e)"
| "wsforward_from Bridged stat (UpstreamClose # events) = Some (Inr stat)"
| "wsforward_from Bridged stat (ClientClose # events) = Some (Inr stat)"
| "wsforward_from Bridged stat (UpstreamMessage n # events) = wsforward_from Bridged (stat + n) events"
| "wsforward_from Bridged stat (ClientMessage n # events) = wsforward_from Bridged (stat + n) events"
| "wsforward_from phase stat (ev # events) = wsforward_from phase stat events"

definition wsforward :: "ws_event list \<Rightarrow> (string + nat) option" where
  "wsforward events = wsforward_from Connecting 0 events"

subsection \<open>\<open>proxy\<close>\<close>

record proxy_options =
  upstream :: url
  nolog :: bool
  timeout :: "int option"
  websocket :: bool
  reqHeadersFilter :: "string list option"
  resHeadersFilter :: "string list option"

text \<open>The URL of the upstream request: the URL of the request with the path of the
  context, and the host and the protocol of \<open>new URL(conf.upstream)\<close>.\<close>

definition proxy_url :: "proxy_options \<Rightarrow> koa_context \<Rightarrow> url" where
  "proxy_url conf ctx =
     set_protocol (set_host ((href ctx)\<lparr>pathname := path ctx\<rparr>) (upstream conf))
       (protocol (upstream conf))"

definition starts_with_colon :: "string \<Rightarrow> bool" where
  "starts_with_colon s \<longleftrightarrow> take 1 s = '':''"

definition reqHeadersFiltered :: "proxy_options \<Rightarrow> koa_context \<Rightarrow> (string \<times> string) list" where
  "reqHeadersFiltered conf ctx =
     filter_keys (req_headers ctx)
       (\<lambda>s. \<not> starts_with_colon s \<and>
            s \<notin> set (case reqHeadersFilter conf of None \<Rightarrow> [''host''] | Some names \<Rightarrow> names))"

definition resHeadersFiltered :: "proxy_options \<Rightarrow> incoming_message \<Rightarrow> (string \<times> string) list" where
  "resHeadersFiltered conf res =
     filter_keys (in_headers res)
       (\<lambda>s. \<not> starts_with_colon s \<and>
            s \<notin> set (case resHeadersFilter conf of
                        None \<Rightarrow> [''connection'', ''transfer-encoding'']
                      | Some names \<Rightarrow> names))"

text \<open>
  The middleware. Its result is absent when the promise of \<open>wsforward\<close> stays pending.
\<close>

definition proxy ::
  "(client_request \<Rightarrow> error + incoming_message) \<Rightarrow> ws_event list \<Rightarrow> proxy_options
     \<Rightarrow> koa_context \<Rightarrow> continuation \<Rightarrow> (error + koa_context) option" where
  "proxy http_request events conf ctx next =
     (let u = proxy_url conf ctx;
          ctx1 = (if nolog conf then ctx\<lparr>log_enabled := False\<rparr> else ctx)
      in
        if ws ctx1 \<and> can_upgrade ctx1 \<and> websocket conf then
          let ctx2 = ctx1\<lparr>handler := Some ''ProxyWS''\<rparr>;
              u2 = set_protocol u (if protocol u = ''http:'' then ''ws:''
                                   else if protocol u = ''https:'' then ''wss:'' else ''ws:'')
          in case wsforward events of
               None \<Rightarrow> None
             | Some (Inr stat) \<Rightarrow>
                 let ctx3 = ctx2\<lparr>status := 101, bytes := Some stat\<rparr>
                 in Some (Inr (if log_enabled ctx3
                               then ctx_log [''ProxiedWS'', ''to='' @ url_href u2] ctx3 else ctx3))
             | Some (Inl err) \<Rightarrow>
                 let ctx3 = ctx2\<lparr>body := Some (BodyString []), status := 200,
                                 error_attr := Some (Error err)\<rparr>
                 in Some (next (if log_enabled ctx3
                                then ctx_log [''ProxyWS-Failed'', ''to='' @ url_href u2] ctx3
                                else ctx3))
        else
          let ctx2 = ctx1\<lparr>handler := Some ''Proxy''\<rparr>
          in case request http_request u (reqHeadersFiltered conf ctx2) (request_method ctx2)
                    (case timeout conf of None \<Rightarrow> 3000 | Some t \<Rightarrow> if t = 0 then 3000 else t) of
               Inl e \<Rightarrow> Some (Inl e)
             | Inr (res, res_body) \<Rightarrow>
                 let ctx3 = ctx2\<lparr>body := Some (BodyBuffer res_body),
                                 status := (case in_statusCode res of
                                              None \<Rightarrow> 503
                                            | Some code \<Rightarrow> if code = 0 then 503 else code)\<rparr>;
                     ctx4 = fold (\<lambda>(k, v) c. ctx_set k v c) (resHeadersFiltered conf res) ctx3
                 in Some (next (if log_enabled ctx4
                                then ctx_log [''Proxied'', ''to='' @ url_href u] ctx4 else ctx4)))"

section \<open>Static files: \<open>send\<close>, \<open>serve\<close> and the static module\<close>

subsection \<open>Functions of Node's \<open>path\<close> module, POSIX flavour\<close>

definition basename :: "string \<Rightarrow> string" where
  "basename p =
     rev (takeWhile (\<lambda>c. c \<noteq> CHR ''/'') (dropWhile (\<lambda>c. c = CHR ''/'') (rev p)))"

text \<open>\<open>basename(path, ext)\<close>: the suffix is removed from a longer base name.\<close>

definition basename_ext :: "string \<Rightarrow> string \<Rightarrow> string" where
  "basename_ext p ext =
     (if ext = p then []
      else let b = basename p in
        if ext \<noteq> [] \<and> length ext < length b \<and> drop (length b - length ext) b = ext
        then take (length b - length ext) b else b)"

text \<open>\<open>extname\<close>: from the last dot of the base name, unless that dot is its
  first character or the base name is \<open>..\<close>.\<close>

definition extname :: "string \<Rightarrow> string" where
  "extname p =
     (let b = basename p;
          suffix = rev (takeWhile (\<lambda>c. c \<noteq> CHR ''.'') (rev b))
      in if CHR ''.'' \<notin> set b then []
         else if length b = Suc (length suffix) \<or> b = ''..'' then []
         else CHR ''.'' # suffix)"

text \<open>\<open>path.join(a, b)\<close>.\<close>

definition joinPath :: "string \<Rightarrow> string \<Rightarrow> string" where
  "joinPath a b =
     (if a = [] \<and> b = [] then ''.''
      else if a = [] then normalize b
      else if b = [] then normalize a
      else normalize (a @ ''/'' @ b))"

subsection \<open>What the handler finds around it\<close>

record file_stats =
  st_size :: nat
  st_mtime :: string
  st_isDirectory :: bool

text \<open>
  The environment of \<open>send\<close>: \<open>path.resolve\<close> of one argument (it depends on the
  working directory), \<open>resolvePath\<close> of the package resolve-path (which throws an
  HTTP error or returns the resolved path), \<open>decodeURIComponent\<close> (nothing when it
  throws), \<open>ctx.acceptsEncodings\<close> (nothing for \<open>false\<close>), and the file system:
  \<open>fs.stat\<close> (the \<open>code\<close> of the error, or the stats) and whether \<open>fs.access\<close>
  succeeds.
\<close>

record node_env =
  resolve :: "string \<Rightarrow> string"
  resolvePath :: "string \<Rightarrow> string \<Rightarrow> error + string"
  decodeURIComponent :: "string \<Rightarrow> string option"
  acceptsEncodings :: "koa_context \<Rightarrow> string list \<Rightarrow> string option"
  fs_stat :: "string \<Rightarrow> string + file_stats"
  fs_access :: "string \<Rightarrow> bool"

text \<open>
  The options. \<open>hidden\<close>, \<open>immutable\<close>, \<open>format\<close>, \<open>brotli\<close> and \<open>gzip\<close>
  hold the value that \<open>send\<close> computes from the option (\<open>opts.gzip !== false\<close> and
  so on); \<open>index_name\<close> is the option \<open>index\<close>, absent for \<open>false\<close>;
  \<open>setHeaders\<close> acts on the headers of the response.
\<close>

record send_options =
  absolute :: bool
  maxage :: "int option"
  maxAge :: "int option"
  immutable :: bool
  hidden :: bool
  root :: "string option"
  index_name :: "string option"
  gzip :: bool
  brotli :: bool
  format :: bool
  setHeaders :: "(string \<Rightarrow> file_stats \<Rightarrow> (string \<times> string) list \<Rightarrow> (string \<times> string) list) option"
  extensions :: "string list option"
  deferred :: bool
  browse_enabled :: bool
  base :: "string option"
  static_nolog :: bool

record send_result =
  ok :: bool
  result_path :: "string option"
  isDirectory :: bool

definition exists_file :: "node_env \<Rightarrow> string \<Rightarrow> bool" where
  "exists_file env p = fs_access env p"

subsection \<open>\<open>send\<close>\<close>

definition send_root :: "node_env \<Rightarrow> send_options \<Rightarrow> string" where
  "send_root env opts =
     (case root opts of
        None \<Rightarrow> []
      | Some r \<Rightarrow> if r = [] then [] else normalize (resolve env r))"

text \<open>\<open>isHidden\<close>; the loop runs over the first \<open>path.length\<close> parts.\<close>

definition isHidden :: "string \<Rightarrow> string \<Rightarrow> bool" where
  "isHidden r p =
     list_ex (\<lambda>pathPart. pathPart \<noteq> [] \<and> hd pathPart = CHR ''.'')
       (take (length p) (split_on (CHR ''/'') (drop (length r) p)))"

text \<open>\<open>type(file, ext)\<close>: the extension that \<open>ctx.type\<close> is given.\<close>

definition file_type :: "string \<Rightarrow> string \<Rightarrow> string" where
  "file_type file ext = (if ext \<noteq> [] then extname (basename_ext file ext) else extname file)"

text \<open>
  From the start of \<open>send\<close> to the resolved path: the leading slashes go, the path
  is decoded, the index is appended to a path that ended with a slash, and the path is
  resolved against the root.
\<close>

definition send_resolve :: "node_env \<Rightarrow> send_options \<Rightarrow> string \<Rightarrow> error + string" where
  "send_resolve env opts p0 =
     (if p0 = [] then Inl (Error ''pathname required'')
      else
        let trailingSlash = (last p0 = CHR ''/'');
            p1 = (if take 1 p0 = ''/'' then drop 1 p0 else p0);
            p2 = (if take 1 p1 = ''/'' then js_replace p1 ''/'' [] else p1)
        in case decodeURIComponent env p2 of
             None \<Rightarrow> Inl (HttpError 400 ''failed to decode path'')
           | Some p3 \<Rightarrow>
               let p4 = (case index_name opts of
                           Some i \<Rightarrow> if i \<noteq> [] \<and> trailingSlash then p3 @ i else p3
                         | None \<Rightarrow> p3)
               in if \<not> absolute opts then resolvePath env (send_root env opts) p4
                  else Inr (CHR ''/'' # p4))"

text \<open>
  The choice of a compressed sibling: the path, the context and \<open>encodingExt\<close>.
\<close>

definition send_encoding :: "node_env \<Rightarrow> send_options \<Rightarrow> koa_context \<Rightarrow> string \<Rightarrow> string \<times> koa_context \<times> string" where
  "send_encoding env opts ctx p =
     (if acceptsEncodings env ctx [''br'', ''identity''] = Some ''br'' \<and> brotli opts
         \<and> exists_file env (p @ ''.br'')
      then (p @ ''.br'',
            (ctx_set ''Content-Encoding'' ''br'' ctx)
              \<lparr>res_headers := obj_delete (res_headers (ctx_set ''Content-Encoding'' ''br'' ctx)) ''Content-Length''\<rparr>,
            ''.br'')
      else if acceptsEncodings env ctx [''gzip'', ''identity''] = Some ''gzip'' \<and> gzip opts
         \<and> exists_file env (p @ ''.gz'')
      then (p @ ''.gz'',
            (ctx_set ''Content-Encoding'' ''gzip'' ctx)
              \<lparr>res_headers := obj_delete (res_headers (ctx_set ''Content-Encoding'' ''gzip'' ctx)) ''Content-Length''\<rparr>,
            ''.gz'')
      else (p, ctx, []))"

text \<open>The loop over the extensions, for a base name without a dot.\<close>

fun try_extensions :: "node_env \<Rightarrow> string \<Rightarrow> string list \<Rightarrow> string" where
  "try_extensions env p [] = p"
| "try_extensions env p (e # list) =
     (let ext = (if take 1 e = ''.'' then e else CHR ''.'' # e)
      in if exists_file env (p @ ext) then p @ ext else try_extensions env p list)"

definition send_extensions :: "node_env \<Rightarrow> send_options \<Rightarrow> string \<Rightarrow> string" where
  "send_extensions env opts p =
     (case extensions opts of
        Some list \<Rightarrow> if CHR ''.'' \<notin> set (basename p) then try_extensions env p list else p
      | None \<Rightarrow> p)"

text \<open>
  The \<open>stat\<close> block: the error of a missing file is a 404, any other error gets the
  status 500; a directory is answered by its index, when \<open>format\<close> and an index are
  set, and otherwise returned as such.
\<close>

definition stat_error :: "string \<Rightarrow> error" where
  "stat_error code =
     (if code \<noteq> [] \<and> code \<in> set [''ENOENT'', ''ENAMETOOLONG'', ''ENOTDIR'']
      then HttpError 404 code else HttpError 500 code)"

definition send_stat :: "node_env \<Rightarrow> send_options \<Rightarrow> string \<Rightarrow> error + (string \<times> file_stats option)" where
  "send_stat env opts p =
     (case fs_stat env p of
        Inl code \<Rightarrow> Inl (stat_error code)
      | Inr stats \<Rightarrow>
          if st_isDirectory stats then
            (case (if format opts then index_name opts else None) of
               Some i \<Rightarrow>
                 if i \<noteq> [] then
                   (case fs_stat env (p @ ''/'' @ i) of
                      Inl code \<Rightarrow> Inl (stat_error code)
                    | Inr stats' \<Rightarrow> Inr (p @ ''/'' @ i, Some stats'))
                 else Inr (p, None)
             | None \<Rightarrow> Inr (p, None))
          else Inr (p, Some stats))"

text \<open>\<open>maxage / 1000 | 0\<close>: the quotient, truncated, as a 32-bit integer.\<close>

definition max_age_seconds :: "int \<Rightarrow> int" where
  "max_age_seconds ms =
     (let q = (if 0 \<le> ms then ms div 1000 else - ((- ms) div 1000))
      in (q + 2 ^ 31) mod 2 ^ 32 - 2 ^ 31)"

text \<open>The headers set before the body: lines 160 to 173.\<close>

definition send_headers :: "send_options \<Rightarrow> string \<Rightarrow> string \<Rightarrow> file_stats \<Rightarrow> koa_context \<Rightarrow> koa_context" where
  "send_headers opts p encodingExt stats ctx =
     (let ctx0 = (case setHeaders opts of
                    None \<Rightarrow> ctx
                  | Some f \<Rightarrow> ctx\<lparr>res_headers := f p stats (res_headers ctx)\<rparr>);
          ctx1 = ctx_set ''Content-Length'' (show_nat (st_size stats)) ctx0;
          ctx2 = ctx_set ''Accept-Ranges'' ''bytes'' ctx1;
          ctx3 = (case obj_get (res_headers ctx2) ''Last-Modified'' of
                    None \<Rightarrow> ctx_set ''Last-Modified'' (st_mtime stats) ctx2
                  | Some v \<Rightarrow> if v = [] then ctx_set ''Last-Modified'' (st_mtime stats) ctx2 else ctx2);
          maxage_ms = (case maxage opts of
                         Some m \<Rightarrow> if m \<noteq> 0 then m
                                    else (case maxAge opts of Some m' \<Rightarrow> m' | None \<Rightarrow> 0)
                       | None \<Rightarrow> (case maxAge opts of Some m' \<Rightarrow> m' | None \<Rightarrow> 0));
          directives = ''max-age='' @ show_int (max_age_seconds maxage_ms)
                       @ (if immutable opts then '',immutable'' else []);
          ctx4 = (case obj_get (res_headers ctx3) ''Cache-Control'' of
                    None \<Rightarrow> ctx_set ''Cache-Control'' directives ctx3
                  | Some v \<Rightarrow> if v = [] then ctx_set ''Cache-Control'' directives ctx3 else ctx3)
      in if ctype ctx4 = [] then ctx4\<lparr>ctype := file_type p encodingExt\<rparr> else ctx4)"

text \<open>
  The \<open>Range\<close> header. \<open>/=(.*)$/\<close> takes what follows the first equals sign that
  no line terminator follows; \<open>/^[\w]*?(\d*)-(\d*)$/\<close> matches word characters, a
  hyphen and digits, and its groups are the digits before the hyphen (as many as there
  are) and the digits after it.
\<close>

definition is_digit :: "char \<Rightarrow> bool" where
  "is_digit c \<longleftrightarrow> c \<in> set ''0123456789''"

definition is_word :: "char \<Rightarrow> bool" where
  "is_word c \<longleftrightarrow>
     c \<in> set ''abcdefghijklmnopqrstuvwxyzABCDEFGHIJKLMNOPQRSTUVWXYZ0123456789_''"

definition digit_val :: "char \<Rightarrow> nat" where
  "digit_val c = length (takeWhile (\<lambda>d. d \<noteq> c) ''0123456789'')"

definition parseInt :: "string \<Rightarrow> nat" where
  "parseInt digits = foldl (\<lambda>n c. 10 * n + digit_val c) 0 digits"

fun range_value :: "string \<Rightarrow> string option" where
  "range_value [] = None"
| "range_value (c # cs) =
     (if c = CHR ''='' \<and> \<not> list_ex line_terminator cs then Some cs else range_value cs)"

definition range_groups :: "string \<Rightarrow> (string \<times> string) option" where
  "range_groups v =
     (let w = takeWhile (\<lambda>c. c \<noteq> CHR ''-'') v
      in case dropWhile (\<lambda>c. c \<noteq> CHR ''-'') v of
           [] \<Rightarrow> None
         | hyphen # d \<Rightarrow>
             if list_all is_word w \<and> list_all is_digit d
             then Some (rev (takeWhile is_digit (rev w)), d)
             else None)"

definition parse_range :: "string \<Rightarrow> (string \<times> string) option" where
  "parse_range rangeHeader =
     (case range_value rangeHeader of None \<Rightarrow> None | Some v \<Rightarrow> range_groups v)"

text \<open>
  \<open>fs.createReadStream(path, { start, end })\<close> throws unless both positions are
  integers between 0 and \<open>2\<^sup>5\<^sup>3 - 1\<close> and \<open>start\<close> is not beyond \<open>end\<close>.
\<close>

definition createReadStream_accepts :: "int \<Rightarrow> int \<Rightarrow> bool" where
  "createReadStream_accepts start_pos end_pos \<longleftrightarrow>
     0 \<le> start_pos \<and> start_pos \<le> 2 ^ 53 - 1 \<and> 0 \<le> end_pos \<and> end_pos \<le> 2 ^ 53 - 1 \<and>
     start_pos \<le> end_pos"

text \<open>The \<open>catch\<close> branch of the range block.\<close>

definition range_not_satisfiable :: "string \<Rightarrow> file_stats \<Rightarrow> koa_context \<Rightarrow> koa_context" where
  "range_not_satisfiable p stats ctx =
     (ctx_set ''Content-Range'' (''bytes */'' @ show_nat (st_size stats))
        (ctx_set ''Content-Length'' (show_nat (st_size stats)) (ctx\<lparr>status := 416\<rparr>)))
       \<lparr>body := Some (ReadStream p None)\<rparr>"

text \<open>Lines 174 to 204: the body, for a request with or without a \<open>Range\<close> header.\<close>

definition send_range :: "string \<Rightarrow> file_stats \<Rightarrow> koa_context \<Rightarrow> koa_context" where
  "send_range p stats ctx =
     (case (case obj_get (req_headers ctx) ''range'' of
              None \<Rightarrow> None
            | Some rangeHeader \<Rightarrow> if rangeHeader = [] then None else Some rangeHeader) of
        None \<Rightarrow>
          (ctx_set ''Content-Length'' (show_nat (st_size stats)) ctx)
            \<lparr>body := Some (ReadStream p None)\<rparr>
      | Some rangeHeader \<Rightarrow>
          (case parse_range rangeHeader of
             None \<Rightarrow> range_not_satisfiable p stats ctx
           | Some (g1, g2) \<Rightarrow>
               let end0 = (if g2 \<noteq> [] then int (parseInt g2) else int (st_size stats) - 1);
                   start_pos = (if g1 \<noteq> [] then int (parseInt g1) else int (st_size stats) - end0);
                   end_pos = (if g1 \<noteq> [] then end0 else int (st_size stats) - 1);
                   chunksize = end_pos - start_pos + 1;
                   ctx1 = ctx_set ''Content-Range''
                            (''bytes '' @ show_int start_pos @ ''-'' @ show_int end_pos @ ''/''
                               @ show_nat (st_size stats))
                            (ctx_set ''Content-Length'' (show_int chunksize) (ctx\<lparr>status := 206\<rparr>))
               in if createReadStream_accepts start_pos end_pos
                  then ctx1\<lparr>body := Some (ReadStream p (Some (start_pos, end_pos)))\<rparr>
                  else range_not_satisfiable p stats ctx1))"

text \<open>
  \<open>send\<close>: the outcome (an error thrown, or the result) and the context as it is
  left at that point.
\<close>

definition send :: "node_env \<Rightarrow> koa_context \<Rightarrow> string \<Rightarrow> send_options \<Rightarrow> (error + send_result) \<times> koa_context" where
  "send env ctx p0 opts =
     (case send_resolve env opts p0 of
        Inl e \<Rightarrow> (Inl e, ctx)
      | Inr p \<Rightarrow>
          if \<not> hidden opts \<and> isHidden (send_root env opts) p
          then (Inr \<lparr>ok = False, result_path = None, isDirectory = False\<rparr>, ctx)
          else
            (case send_encoding env opts ctx p of
               (p1, ctx1, encodingExt) \<Rightarrow>
                 (case send_stat env opts (send_extensions env opts p1) of
                    Inl e \<Rightarrow> (Inl e, ctx1)
                  | Inr (p3, None) \<Rightarrow>
                      (Inr \<lparr>ok = False, result_path = Some p3, isDirectory = True\<rparr>, ctx1)
                  | Inr (p3, Some stats) \<Rightarrow>
                      (Inr \<lparr>ok = True, result_path = Some p3, isDirectory = False\<rparr>,
                       send_range p3 stats (send_headers opts p3 encodingExt stats ctx1)))))"

subsection \<open>\<open>serve\<close>\<close>

definition error_status :: "error \<Rightarrow> int option" where
  "error_status e = (case e of HttpError code msg \<Rightarrow> Some code | _ \<Rightarrow> None)"

text \<open>
  The middleware that \<open>serve\<close> returns without \<open>defer\<close>. The directory listing
  (\<open>browse\<close>) is a parameter.
\<close>

definition serve_now ::
  "node_env \<Rightarrow> (koa_context \<Rightarrow> string \<Rightarrow> string option \<Rightarrow> error + koa_context) \<Rightarrow> send_options
     \<Rightarrow> koa_middleware" where
  "serve_now env browse options ctx next =
     (if request_method ctx = ''HEAD'' \<or> request_method ctx = ''GET'' then
        (case send env ctx (path ctx) options of
           (Inl err, ctx1) \<Rightarrow> if error_status err \<noteq> Some 404 then Inl err else next ctx1
         | (Inr result, ctx1) \<Rightarrow>
             if ok result then Inr ctx1
             else if isDirectory result \<and> browse_enabled options then
               (case browse ctx1 (case result_path result of Some p \<Rightarrow> p | None \<Rightarrow> []) (base options) of
                  Inl err \<Rightarrow> if error_status err \<noteq> Some 404 then Inl err else next ctx1
                | Inr ctx2 \<Rightarrow> Inr ctx2)
             else next ctx1)
      else next ctx)"

text \<open>The middleware that \<open>serve\<close> returns with \<open>defer\<close>.\<close>

definition serve_deferred :: "node_env \<Rightarrow> send_options \<Rightarrow> koa_middleware" where
  "serve_deferred env options ctx next =
     (case next ctx of
        Inl err \<Rightarrow> Inl err
      | Inr ctx1 \<Rightarrow>
          if request_method ctx1 \<noteq> ''HEAD'' \<and> request_method ctx1 \<noteq> ''GET'' then Inr ctx1
          else if body ctx1 \<noteq> None \<or> status ctx1 \<noteq> 404 then Inr ctx1
          else (case send env ctx1 (path ctx1) options of
                  (Inl err, ctx2) \<Rightarrow> if error_status err \<noteq> Some 404 then Inl err else Inr ctx2
                | (Inr result, ctx2) \<Rightarrow> Inr ctx2))"

definition serve ::
  "node_env \<Rightarrow> (koa_context \<Rightarrow> string \<Rightarrow> string option \<Rightarrow> error + koa_context) \<Rightarrow> send_options
     \<Rightarrow> error + koa_middleware" where
  "serve env browse options =
     (case root options of
        None \<Rightarrow> Inl (Error ''root directory is required to serve files'')
      | Some r \<Rightarrow>
          if r = [] then Inl (Error ''root directory is required to serve files'')
          else if deferred options
          then Inr (serve_deferred env (options\<lparr>root := Some (resolve env r)\<rparr>))
          else Inr (serve_now env browse (options\<lparr>root := Some (resolve env r)\<rparr>)))"

subsection \<open>The static module\<close>

definition staticModule ::
  "node_env \<Rightarrow> (koa_context \<Rightarrow> string \<Rightarrow> string option \<Rightarrow> error + koa_context) \<Rightarrow> send_options
     \<Rightarrow> error + koa_middleware" where
  "staticModule env browse options =
     (case serve env browse options of
        Inl e \<Rightarrow> Inl e
      | Inr serveHandler \<Rightarrow>
          Inr (\<lambda>ctx next.
            let ctx1 = ctx\<lparr>handler := Some ''Static''\<rparr>;
                p = path ctx1;
                ctx2 = (case base options of
                          Some b \<Rightarrow> if b \<noteq> [] then ctx1\<lparr>path := js_replace p b ''/''\<rparr> else ctx1
                        | None \<Rightarrow> ctx1);
                ctx3 = (if static_nolog options then ctx2\<lparr>log_enabled := False\<rparr> else ctx2);
                ctx4 = (if log_enabled ctx3
                        then ctx_log [''Served'',
                               joinPath (resolve env (case root options of Some r \<Rightarrow> r | None \<Rightarrow> []))
                                 (path ctx3)] ctx3
                        else ctx3)
            in serveHandler ctx4 (\<lambda>c. next (c\<lparr>path := p\<rparr>))))"

section \<open>A request and parameters used to instantiate the theorems\<close>

definition example_ctx :: koa_context where
  "example_ctx = \<lparr>request_method = ''GET'',
     href = \<lparr>protocol = ''http:'', url_hostname = ''www.example.com'', port = [],
              pathname = ''/api/x'', search = []\<rparr>,
     hostname = ''www.example.com'', path = ''/api/x'',
     req_headers = [(''host'', ''www.example.com''), (''accept'', ''*/*'')],
     ws = False, can_upgrade = False, status = 404, body = None, res_headers = [],
     ctype = [], handler = None, site = None, error_attr = None, log_enabled = True,
     logged = [], bytes = None\<rparr>"







text \<open>A continuation that handles the request by leaving its name.\<close>

definition example_next :: continuation where
  "example_next ctx = Inr (ctx\<lparr>handler := Some ''below''\<rparr>)"

text \<open>
  A proxy route to \<open>http://127.0.0.1:8080\<close> with WebSocket enabled, and an upstream
  that answers 204 without a body and reports the \<open>Host\<close> header it has received.
\<close>

definition example_proxy_conf :: proxy_options where
  "example_proxy_conf = \<lparr>upstream = \<lparr>protocol = ''http:'', url_hostname = ''127.0.0.1'',
       port = ''8080'', pathname = ''/'', search = []\<rparr>,
     nolog = False, timeout = None, websocket = True, reqHeadersFilter = None,
     resHeadersFilter = None\<rparr>"

definition example_send :: "client_request \<Rightarrow> error + incoming_message" where
  "example_send req = Inr \<lparr>in_statusCode = Some 204,
     in_headers = [(''connection'', ''close''),
                   (''x-host-received'', case obj_get (out_headers req) ''host'' of
                                            None \<Rightarrow> [] | Some h \<Rightarrow> h)],
     chunks = []\<rparr>"






section \<open>Properties of the primitives\<close>

lemma obj_get_set: "obj_get (obj_set kvs k v) k' = (if k' = k then Some v else obj_get kvs k')"
  by (induction kvs) (auto simp: obj_get_def)


lemma obj_get_fold_set:
  "\<forall>kv \<in> set entries. fst kv \<noteq> k \<Longrightarrow>
   obj_get (fold (\<lambda>(k', v) obj. obj_set obj k' v) entries obj) k = obj_get obj k"
  by (induction entries arbitrary: obj) (auto simp: obj_get_set)

section \<open>Properties of the middleware chain\<close>

lemma advanced_refl: "advanced n c c"
  by (simp add: advanced_def)

lemma advanced_trans:
  assumes "advanced n a b" "advanced n b c"
  shows "advanced n a c"
proof -
  from assms(1) obtain e1 where e1: "index a \<le> index b" "trace b = trace a @ e1"
    "\<And>k. count_list e1 (Entered k) \<le> (if index a < int k \<and> int k \<le> index b then 1 else 0)"
    "count_list e1 OuterNext \<le> (if index a < int n \<and> int n \<le> index b then 1 else 0)"
    unfolding advanced_def by blast
  from assms(2) obtain e2 where e2: "index b \<le> index c" "trace c = trace b @ e2"
    "\<And>k. count_list e2 (Entered k) \<le> (if index b < int k \<and> int k \<le> index c then 1 else 0)"
    "count_list e2 OuterNext \<le> (if index b < int n \<and> int n \<le> index c then 1 else 0)"
    unfolding advanced_def by blast
  have t: "trace c = trace a @ (e1 @ e2)" using e1(2) e2(2) by simp
  have k: "count_list (e1 @ e2) (Entered k) \<le> (if index a < int k \<and> int k \<le> index c then 1 else 0)" for k
    using e1(3)[of k] e2(3)[of k] e1(1) e2(1) by (auto split: if_splits)
  have o: "count_list (e1 @ e2) OuterNext \<le> (if index a < int n \<and> int n \<le> index c then 1 else 0)"
    using e1(4) e2(4) e1(1) e2(1) by (auto split: if_splits)
  show ?thesis unfolding advanced_def using e1(1) e2(1) t k o by fastforce
qed

lemma advanced_did: "advanced n c (c\<lparr>trace := trace c @ [Did i a]\<rparr>)"
  by (simp add: advanced_def)

lemma advanced_enter:
  "index c < int i \<Longrightarrow> advanced n c (c\<lparr>index := int i, trace := trace c @ [Entered i]\<rparr>)"
  by (simp add: advanced_def)

lemma advanced_outer:
  "index c < int n \<Longrightarrow> advanced n c (c\<lparr>index := int n, trace := trace c @ [OuterNext]\<rparr>)"
  by (simp add: advanced_def)

lemma advanced_index:
  "index c < int i \<Longrightarrow> advanced n c (c\<lparr>index := int i\<rparr>)"
  by (simp add: advanced_def)

lemma dispatch_run_advanced:
  "dispatch ms i c = (r, c') \<Longrightarrow> advanced (length ms) c c' \<and> int i \<le> index c'"
  "run_route ms j as d = (r', d') \<Longrightarrow> advanced (length ms) d d'"
proof (induction ms i c and ms j as d arbitrary: r c' and r' d' rule: dispatch_run_route.induct)
  case (1 ms i c)
  show ?case
  proof (cases "int i \<le> index c")
    case True
    with "1.prems" show ?thesis by (simp add: advanced_refl)
  next
    case False
    note nle = this
    show ?thesis
    proof (cases "i < length ms")
      case True
      let ?c1 = "c\<lparr>index := int i, trace := trace c @ [Entered i]\<rparr>"
      from "1.prems" nle True have run: "run_route ms i (ms ! i) ?c1 = (r, c')" by simp
      from "1.IH"[OF nle refl True] run have a: "advanced (length ms) ?c1 c'" by simp
      have b: "advanced (length ms) c ?c1" using nle by (simp add: advanced_enter)
      from a have "int i \<le> index c'" by (simp add: advanced_def)
      with advanced_trans[OF b a] show ?thesis by simp
    next
      case False
      with "1.prems" nle show ?thesis
        by (auto simp: Let_def advanced_outer advanced_index split: if_splits)
    qed
  qed
next
  case (2 ms i c)
  then show ?case by (simp add: advanced_refl)
next
  case (3 ms i a rest c)
  from "3.prems" have "run_route ms i rest (c\<lparr>trace := trace c @ [Did i a]\<rparr>) = (r', d')" by simp
  from "3.IH"[OF this] advanced_did show ?case by (blast intro: advanced_trans)
next
  case (4 ms i rest c)
  obtain r1 c1 where d: "dispatch ms (i + 1) c = (r1, c1)" by (cases "dispatch ms (i + 1) c")
  from "4.IH"(1)[OF d] have a: "advanced (length ms) c c1" by simp
  show ?case
  proof (cases r1)
    case (Inl e)
    with "4.prems" d a show ?thesis by simp
  next
    case (Inr u)
    with "4.prems" d have "run_route ms i rest c1 = (r', d')" by simp
    from "4.IH"(2)[OF d[symmetric] Inr this] a show ?thesis by (blast intro: advanced_trans)
  qed
next
  case (5 ms i rest c)
  obtain r1 c1 where d: "dispatch ms (i + 1) c = (r1, c1)" by (cases "dispatch ms (i + 1) c")
  from "5.IH"(1)[OF d] have a: "advanced (length ms) c c1" by simp
  from "5.prems" d have "run_route ms i rest c1 = (r', d')" by simp
  from "5.IH"(2)[OF d[symmetric] this] a show ?case by (blast intro: advanced_trans)
next
  case (6 ms i n rest c)
  then show ?case by (auto simp: advanced_refl)
qed

lemma dispatch_run_prefix:
  "dispatch ms i (c\<lparr>trace := pre @ trace c\<rparr>) =
     (case dispatch ms i c of (r, c') \<Rightarrow> (r, c'\<lparr>trace := pre @ trace c'\<rparr>))"
  "run_route ms j as (d\<lparr>trace := pre @ trace d\<rparr>) =
     (case run_route ms j as d of (r, d') \<Rightarrow> (r, d'\<lparr>trace := pre @ trace d'\<rparr>))"
proof (induction ms i c and ms j as d rule: dispatch_run_route.induct)
  case (1 ms i c)
  then show ?case by (simp add: Let_def)
next
  case (2 ms i c)
  then show ?case by simp
next
  case (3 ms i a rest c)
  then show ?case by simp
next
  case (4 ms i rest c)
  obtain r1 c1 where d: "dispatch ms (i + 1) c = (r1, c1)" by (cases "dispatch ms (i + 1) c")
  with "4.IH"(1) have d': "dispatch ms (i + 1) (c\<lparr>trace := pre @ trace c\<rparr>) =
      (r1, c1\<lparr>trace := pre @ trace c1\<rparr>)" by simp
  show ?case
  proof (cases r1)
    case (Inl e)
    with d d' show ?thesis by (simp del: dispatch.simps)
  next
    case (Inr u)
    from "4.IH"(2)[OF d[symmetric] Inr] d d' Inr show ?thesis by (simp del: dispatch.simps)
  qed
next
  case (5 ms i rest c)
  obtain r1 c1 where d: "dispatch ms (i + 1) c = (r1, c1)" by (cases "dispatch ms (i + 1) c")
  with "5.IH"(1) have d': "dispatch ms (i + 1) (c\<lparr>trace := pre @ trace c\<rparr>) =
      (r1, c1\<lparr>trace := pre @ trace c1\<rparr>)" by simp
  from "5.IH"(2)[OF d[symmetric]] d d' show ?case by (simp del: dispatch.simps)
next
  case (6 ms i n rest c)
  then show ?case by simp
qed

text \<open>
  C1. Single-shot continuation. Once a frame \<open>i\<close> has called its continuation
  (\<open>dispatch (i + 1)\<close>), whatever the frame does afterwards, a further call of the
  continuation throws \<open>next() called multiple times\<close> and leaves the closure as it
  was, so it invokes nothing. In one invocation of the composed middleware every
  middleware is entered at most once and the outer continuation is called at most once.
  Every invocation starts from its own index: its outcome and the events it adds are
  those of an invocation that nothing preceded.
\<close>

theorem compose_next_single_shot:
  "(dispatch ms (Suc i) c = (r1, c1) \<and> run_route ms i as c1 = (r2, c2)
      \<longrightarrow> dispatch ms (Suc i) c2 = (Inl NextCalledMultipleTimes, c2)) \<and>
   (\<exists>ev. snd (compose ms seen) = seen @ ev \<and>
      (\<forall>k. count_list ev (Entered k) \<le> 1) \<and> count_list ev OuterNext \<le> 1) \<and>
   compose ms seen = (fst (compose ms []), seen @ snd (compose ms []))"
proof (intro conjI impI)
  assume a: "dispatch ms (Suc i) c = (r1, c1) \<and> run_route ms i as c1 = (r2, c2)"
  from a dispatch_run_advanced(1)[of ms "Suc i" c r1 c1] have "int (Suc i) \<le> index c1" by simp
  moreover from a dispatch_run_advanced(2)[of ms i as c1 r2 c2] have "index c1 \<le> index c2"
    by (simp add: advanced_def)
  ultimately show "dispatch ms (Suc i) c2 = (Inl NextCalledMultipleTimes, c2)" by simp
next
  obtain r c' where d: "dispatch ms 0 \<lparr>index = - 1, trace = seen\<rparr> = (r, c')"
    by (cases "dispatch ms 0 \<lparr>index = - 1, trace = seen\<rparr>")
  from dispatch_run_advanced(1)[OF d] obtain ev where ev: "trace c' = seen @ ev"
    "\<And>k. count_list ev (Entered k) \<le>
       (if index \<lparr>index = - 1, trace = seen\<rparr> < int k \<and> int k \<le> index c' then 1 else 0)"
    "count_list ev OuterNext \<le>
       (if index \<lparr>index = - 1, trace = seen\<rparr> < int (length ms) \<and> int (length ms) \<le> index c'
        then 1 else 0)"
    unfolding advanced_def by auto
  have "count_list ev (Entered k) \<le> 1" for k using ev(2)[of k] by (simp split: if_splits)
  moreover have "count_list ev OuterNext \<le> 1" using ev(3) by (simp split: if_splits)
  ultimately show "\<exists>ev. snd (compose ms seen) = seen @ ev \<and>
      (\<forall>k. count_list ev (Entered k) \<le> 1) \<and> count_list ev OuterNext \<le> 1"
    using ev(1) d by (auto simp: compose_def)
next
  have "dispatch ms 0 (\<lparr>index = - 1, trace = []\<rparr>\<lparr>trace := seen @ trace \<lparr>index = - 1, trace = []\<rparr>\<rparr>) =
     (case dispatch ms 0 \<lparr>index = - 1, trace = []\<rparr> of (r, c') \<Rightarrow> (r, c'\<lparr>trace := seen @ trace c'\<rparr>))"
    by (rule dispatch_run_prefix(1))
  then show "compose ms seen = (fst (compose ms []), seen @ snd (compose ms []))"
    by (simp add: compose_def split: prod.splits)
qed

text \<open>
  The theorem at a stack of two middlewares whose first one calls its continuation
  twice: the second call throws, and the second middleware was entered once.
\<close>

theorem compose_next_single_shot_witness:
  "dispatch [[Act 0, AwaitNext, AwaitNext, Act 1], [Act 2, AwaitNext]] (Suc 0)
      \<lparr>index = 0, trace = [Entered 0, Did 0 0]\<rparr> =
     (Inr (), \<lparr>index = 2, trace = [Entered 0, Did 0 0, Entered 1, Did 1 2, OuterNext]\<rparr>) \<and>
   run_route [[Act 0, AwaitNext, AwaitNext, Act 1], [Act 2, AwaitNext]] 0 [Act 7]
      \<lparr>index = 2, trace = [Entered 0, Did 0 0, Entered 1, Did 1 2, OuterNext]\<rparr> =
     (Inr (), \<lparr>index = 2, trace = [Entered 0, Did 0 0, Entered 1, Did 1 2, OuterNext, Did 0 7]\<rparr>) \<and>
   dispatch [[Act 0, AwaitNext, AwaitNext, Act 1], [Act 2, AwaitNext]] (Suc 0)
      \<lparr>index = 2, trace = [Entered 0, Did 0 0, Entered 1, Did 1 2, OuterNext, Did 0 7]\<rparr> =
     (Inl NextCalledMultipleTimes,
      \<lparr>index = 2, trace = [Entered 0, Did 0 0, Entered 1, Did 1 2, OuterNext, Did 0 7]\<rparr>) \<and>
   compose [[Act 0, AwaitNext, AwaitNext, Act 1], [Act 2, AwaitNext]] [Did 9 9] =
     (Inl NextCalledMultipleTimes, [Did 9 9, Entered 0, Did 0 0, Entered 1, Did 1 2, OuterNext])"
  using compose_next_single_shot
    [of "[[Act 0, AwaitNext, AwaitNext, Act 1], [Act 2, AwaitNext]]" 0
        "\<lparr>index = 0, trace = [Entered 0, Did 0 0]\<rparr>" "Inr ()"
        "\<lparr>index = 2, trace = [Entered 0, Did 0 0, Entered 1, Did 1 2, OuterNext]\<rparr>"
        "[Act 7]" "Inr ()"
        "\<lparr>index = 2, trace = [Entered 0, Did 0 0, Entered 1, Did 1 2, OuterNext, Did 0 7]\<rparr>"
        "[Did 9 9]"]
  by (simp add: compose_def)

section \<open>Properties of the upgradable response\<close>

lemma call_keeps_headersSent:
  "headersSent r \<Longrightarrow> call g c r = Inr r' \<Longrightarrow> headersSent r'"
  by (cases c)
     (auto simp: response_write_def removeHeader_def setHeader_def upgrade_def writeHead_def
        handshake_done_def on_finish_def split: if_splits option.splits sum.splits)

lemma calls_keep_headersSent: "headersSent r \<Longrightarrow> headersSent (calls g cs r)"
proof (induction cs arbitrary: r)
  case Nil
  then show ?case by simp
next
  case (Cons c cs)
  show ?case
  proof (cases "call g c r")
    case (Inl e)
    with Cons show ?thesis by simp
  next
    case (Inr r')
    with Cons call_keeps_headersSent[of r g c r'] show ?thesis by simp
  qed
qed

lemma writeHead_commits: "writeHead g code message hdrs r = Inr r' \<Longrightarrow> headersSent r'"
  by (auto simp: writeHead_def Let_def split: if_splits option.splits headers_arg.splits)

lemma write_commits: "response_write g chunk r = Inr r' \<Longrightarrow> headersSent r'"
  by (auto simp: response_write_def dest: writeHead_commits split: if_splits option.splits sum.splits)

text \<open>
  C5. Headers-sent monotonicity. A body write or an explicit \<open>writeHead\<close> that returns
  leaves \<open>headersSent\<close> set; the first body write of a response that is neither
  committed nor upgraded puts the status line, the header lines and the blank line on the
  socket before the chunk. From a response with \<open>headersSent\<close> set, after any further
  sequence of calls the flag is still set, and \<open>setHeader\<close>, \<open>removeHeader\<close>,
  \<open>writeHead\<close> and \<open>upgrade\<close> each throw \<open>Headers have already been sent\<close>.
\<close>

theorem headers_sent_monotone:
  "(response_write g chunk a = Inr a' \<longrightarrow> headersSent a') \<and>
   (writeHead g code message hdrs b = Inr b' \<longrightarrow> headersSent b') \<and>
   (\<not> headersSent a \<and> \<not> upgraded a \<and> response_write g (Some payload) a = Inr a'' \<longrightarrow>
      (\<exists>reason. socket a'' = socket a
          @ [Sent (''HTTP/1.1 '' @ show_int (statusCode a) @ '' '' @ reason @ CRLF)]
          @ map (\<lambda>(name, v). Sent (name @ '': '' @ v @ CRLF)) (headers a)
          @ [Sent CRLF, Sent payload])) \<and>
   (headersSent r \<longrightarrow>
      headersSent (calls g cs r) \<and>
      setHeader name v (calls g cs r) = Inl HeadersAlreadySent \<and>
      removeHeader name (calls g cs r) = Inl HeadersAlreadySent \<and>
      writeHead g code' message' hdrs' (calls g cs r) = Inl HeadersAlreadySent \<and>
      upgrade (calls g cs r) = Inl HeadersAlreadySent)"
proof (intro conjI impI)
  assume "response_write g chunk a = Inr a'"
  then show "headersSent a'" by (rule write_commits)
next
  assume "writeHead g code message hdrs b = Inr b'"
  then show "headersSent b'" by (rule writeHead_commits)
next
  assume "\<not> headersSent a \<and> \<not> upgraded a \<and> response_write g (Some payload) a = Inr a''"
  then show "\<exists>reason. socket a'' = socket a
          @ [Sent (''HTTP/1.1 '' @ show_int (statusCode a) @ '' '' @ reason @ CRLF)]
          @ map (\<lambda>(name, v). Sent (name @ '': '' @ v @ CRLF)) (headers a)
          @ [Sent CRLF, Sent payload]"
    by (auto simp: response_write_def writeHead_def Let_def split: if_splits option.splits sum.splits)
next
  assume h: "headersSent r"
  then have k: "headersSent (calls g cs r)" by (rule calls_keep_headersSent)
  then show "headersSent (calls g cs r)" .
  from k show "setHeader name v (calls g cs r) = Inl HeadersAlreadySent" by (simp add: setHeader_def)
  from k show "removeHeader name (calls g cs r) = Inl HeadersAlreadySent" by (simp add: removeHeader_def)
  from k show "writeHead g code' message' hdrs' (calls g cs r) = Inl HeadersAlreadySent"
    by (simp add: writeHead_def)
  from k show "upgrade (calls g cs r) = Inl HeadersAlreadySent" by (simp add: upgrade_def)
qed

text \<open>
  The theorem at a fresh response with status 200: the first write of \<open>hi\<close> commits
  the headers, and after it no header call and no upgrade goes through.
\<close>

theorem headers_sent_monotone_witness:
  "response_write (\<lambda>c. if c = 200 then Some ''OK'' else None) (Some ''hi'') new_response =
     Inr (new_response\<lparr>socket := [Sent (''HTTP/1.1 200 OK'' @ CRLF), Sent CRLF, Sent ''hi''],
            headersSent := True\<rparr>) \<and>
   writeHead (\<lambda>c. if c = 200 then Some ''OK'' else None) 404 (Message ''Not Found'') Undefined new_response =
     Inr (new_response\<lparr>socket := [Sent (''HTTP/1.1 404 Not Found'' @ CRLF), Sent CRLF],
            headersSent := True\<rparr>) \<and>
   \<not> headersSent new_response \<and> \<not> upgraded new_response \<and>
   headersSent (calls (\<lambda>c. if c = 200 then Some ''OK'' else None)
      [SetHeader ''a'' ''b'', Upgrade, Write None]
      (new_response\<lparr>socket := [Sent (''HTTP/1.1 200 OK'' @ CRLF), Sent CRLF, Sent ''hi''],
            headersSent := True\<rparr>)) \<and>
   setHeader ''a'' ''b'' (calls (\<lambda>c. if c = 200 then Some ''OK'' else None)
      [SetHeader ''a'' ''b'', Upgrade, Write None]
      (new_response\<lparr>socket := [Sent (''HTTP/1.1 200 OK'' @ CRLF), Sent CRLF, Sent ''hi''],
            headersSent := True\<rparr>)) = Inl HeadersAlreadySent \<and>
   upgrade (calls (\<lambda>c. if c = 200 then Some ''OK'' else None)
      [SetHeader ''a'' ''b'', Upgrade, Write None]
      (new_response\<lparr>socket := [Sent (''HTTP/1.1 200 OK'' @ CRLF), Sent CRLF, Sent ''hi''],
            headersSent := True\<rparr>)) = Inl HeadersAlreadySent"
  using headers_sent_monotone
    [where g = "\<lambda>c. if c = 200 then Some ''OK'' else None" and chunk = "Some ''hi''"
       and a = new_response
       and a' = "new_response\<lparr>socket := [Sent (''HTTP/1.1 200 OK'' @ CRLF), Sent CRLF, Sent ''hi''],
            headersSent := True\<rparr>"
       and code = 404 and message = "Message ''Not Found''" and hdrs = Undefined
       and b = new_response
       and b' = "new_response\<lparr>socket := [Sent (''HTTP/1.1 404 Not Found'' @ CRLF), Sent CRLF],
            headersSent := True\<rparr>"
       and payload = "''hi''"
       and a'' = "new_response\<lparr>socket := [Sent (''HTTP/1.1 200 OK'' @ CRLF), Sent CRLF, Sent ''hi''],
            headersSent := True\<rparr>"
       and r = "new_response\<lparr>socket := [Sent (''HTTP/1.1 200 OK'' @ CRLF), Sent CRLF, Sent ''hi''],
            headersSent := True\<rparr>"
       and cs = "[SetHeader ''a'' ''b'', Upgrade, Write None]"
       and name = "''a''" and v = "''b''"]
  by (simp add: response_write_def writeHead_def new_response_def show_int_def show_nat.simps
        digit_char_def setHeader_def upgrade_def)

section \<open>Properties of the host router\<close>




section \<open>Properties of the config binding\<close>





section \<open>Properties of the rewrite\<close>







section \<open>Properties of the reverse proxy\<close>

lemma wsforward_fails_before_open:
  "UpstreamOpen \<notin> set pre \<Longrightarrow> (\<forall>e'. UpstreamError e' \<notin> set pre) \<Longrightarrow>
   wsforward_from Connecting stat (pre @ UpstreamError e # rest) = Some (Inl e)"
proof (induction pre)
  case Nil
  then show ?case by simp
next
  case (Cons ev pre)
  then show ?case by (cases ev) auto
qed

text \<open>
  With the default filter, the \<open>host\<close> header that \<open>request\<close> sends is the host
  name of the upstream URL, whatever the client has sent.
\<close>

lemma request_sends_hostname:
  "reqHeadersFilter conf = None \<Longrightarrow>
   obj_get (spread_headers u (reqHeadersFiltered conf ctx)) ''host'' = Some (url_hostname u)"
proof -
  assume "reqHeadersFilter conf = None"
  then have "\<forall>kv \<in> set (reqHeadersFiltered conf ctx). fst kv \<noteq> ''host''"
    by (auto simp: reqHeadersFiltered_def filter_keys_def)
  then show ?thesis
    unfolding spread_headers_def by (simp add: obj_get_fold_set) (simp add: obj_get_def)
qed

text \<open>
  C7, as the code has it. On a request with the WebSocket flag and an upgrade closure,
  at a route with \<open>websocket\<close> enabled, when the upstream socket's first event with a
  listener is an error (no \<open>open\<close> before it), the middleware calls the continuation,
  once and as its last step, with the context in which the handler is \<open>ProxyWS\<close>,
  the body is the empty string, the status is 200, the error is recorded and, with
  logging on, \<open>ProxyWS-Failed\<close> is logged. The WebSocket flag of that context is the
  flag of the request: it is still set.
\<close>

theorem ws_failure_falls_through:
  "ws ctx \<and> can_upgrade ctx \<and> websocket conf \<and>
   UpstreamOpen \<notin> set pre \<and> (\<forall>e'. UpstreamError e' \<notin> set pre) \<longrightarrow>
   proxy http_request (pre @ UpstreamError e # rest) conf ctx next =
     Some (next ((if nolog conf then ctx\<lparr>log_enabled := False\<rparr> else ctx)
                   \<lparr>handler := Some ''ProxyWS'', body := Some (BodyString []), status := 200,
                      error_attr := Some (Error e),
                      logged := (if log_enabled ctx \<and> \<not> nolog conf
                                 then logged ctx @ [[''ProxyWS-Failed'', ''to='' @
                                   url_href (set_protocol (proxy_url conf ctx)
                                     (if protocol (proxy_url conf ctx) = ''https:'' then ''wss:'' else ''ws:''))]]
                                 else logged ctx)\<rparr>)) \<and>
   ws ((if nolog conf then ctx\<lparr>log_enabled := False\<rparr> else ctx)
         \<lparr>handler := Some ''ProxyWS'', body := Some (BodyString []), status := 200,
            error_attr := Some (Error e),
            logged := (if log_enabled ctx \<and> \<not> nolog conf
                       then logged ctx @ [[''ProxyWS-Failed'', ''to='' @
                         url_href (set_protocol (proxy_url conf ctx)
                           (if protocol (proxy_url conf ctx) = ''https:'' then ''wss:'' else ''ws:''))]]
                       else logged ctx)\<rparr>)"
proof (intro impI)
  assume a: "ws ctx \<and> can_upgrade ctx \<and> websocket conf \<and>
     UpstreamOpen \<notin> set pre \<and> (\<forall>e'. UpstreamError e' \<notin> set pre)"
  then have w: "wsforward (pre @ UpstreamError e # rest) = Some (Inl e)"
    by (simp add: wsforward_def wsforward_fails_before_open)
  from a w show "proxy http_request (pre @ UpstreamError e # rest) conf ctx next =
     Some (next ((if nolog conf then ctx\<lparr>log_enabled := False\<rparr> else ctx)
                   \<lparr>handler := Some ''ProxyWS'', body := Some (BodyString []), status := 200,
                      error_attr := Some (Error e),
                      logged := (if log_enabled ctx \<and> \<not> nolog conf
                                 then logged ctx @ [[''ProxyWS-Failed'', ''to='' @
                                   url_href (set_protocol (proxy_url conf ctx)
                                     (if protocol (proxy_url conf ctx) = ''https:'' then ''wss:'' else ''ws:''))]]
                                 else logged ctx)\<rparr>)) \<and>
   ws ((if nolog conf then ctx\<lparr>log_enabled := False\<rparr> else ctx)
         \<lparr>handler := Some ''ProxyWS'', body := Some (BodyString []), status := 200,
            error_attr := Some (Error e),
            logged := (if log_enabled ctx \<and> \<not> nolog conf
                       then logged ctx @ [[''ProxyWS-Failed'', ''to='' @
                         url_href (set_protocol (proxy_url conf ctx)
                           (if protocol (proxy_url conf ctx) = ''https:'' then ''wss:'' else ''ws:''))]]
                       else logged ctx)\<rparr>)"
    by (cases "nolog conf"; cases "log_enabled ctx") (simp_all add: proxy_def Let_def ctx_log_def)
qed

text \<open>
  The theorem at an upgrade request whose upstream refuses the connection, after a close
  of the client that nothing listens to yet.
\<close>

theorem ws_failure_falls_through_witness:
  "ws (example_ctx\<lparr>ws := True, can_upgrade := True\<rparr>) \<and>
   can_upgrade (example_ctx\<lparr>ws := True, can_upgrade := True\<rparr>) \<and>
   websocket example_proxy_conf \<and>
   UpstreamOpen \<notin> set [ClientClose] \<and>
   proxy example_send ([ClientClose] @ UpstreamError ''ECONNREFUSED'' # [UpstreamOpen])
       example_proxy_conf (example_ctx\<lparr>ws := True, can_upgrade := True\<rparr>) example_next =
     Some (Inr (example_ctx\<lparr>ws := True, can_upgrade := True, handler := Some ''below'',
              body := Some (BodyString []), status := 200,
              error_attr := Some (Error ''ECONNREFUSED''),
              logged := [[''ProxyWS-Failed'', ''to=ws://127.0.0.1:8080/api/x'']]\<rparr>))"
  using ws_failure_falls_through
    [where ctx = "example_ctx\<lparr>ws := True, can_upgrade := True\<rparr>" and conf = example_proxy_conf
       and pre = "[ClientClose]" and e = "''ECONNREFUSED''" and rest = "[UpstreamOpen]"
       and http_request = example_send and ?next = example_next]
  by (simp add: example_ctx_def example_proxy_conf_def example_next_def proxy_url_def
        set_host_def set_protocol_def special_scheme_def default_port_def url_href_def url_host_def)

text \<open>
  The claim as stated fails at the WebSocket flag: after the failed upstream connection
  the context that reaches the continuation, and the caller, has the flag set.
\<close>

theorem ws_flag_not_cleared_counterexample:
  "map_option (map_sum id ws)
     (proxy example_send [UpstreamError ''ECONNREFUSED''] example_proxy_conf
        (example_ctx\<lparr>ws := True, can_upgrade := True\<rparr>) Inr) = Some (Inr True)"
  by (simp add: proxy_def Let_def wsforward_def example_ctx_def example_proxy_conf_def ctx_log_def)

text \<open>
  C9 at the route of the claim: upstream \<open>http://127.0.0.1:8080\<close>, a request for
  \<open>/api/x\<close> with the host \<open>www.example.com\<close>, an upstream that answers 204 without a
  body. The client gets the status 204 and an empty body, and the host header of the
  client is not forwarded; but the \<open>Host\<close> header that reaches the upstream is
  \<open>url.hostname\<close>, which is \<open>127.0.0.1\<close>, while \<open>url.host\<close> is
  \<open>127.0.0.1:8080\<close>.
\<close>

theorem proxy_host_header_drops_port:
  "proxy example_send [] example_proxy_conf example_ctx Inr =
     Some (Inr (example_ctx\<lparr>handler := Some ''Proxy'', body := Some (BodyBuffer []), status := 204,
              res_headers := [(''x-host-received'', ''127.0.0.1'')],
              logged := [[''Proxied'', ''to=http://127.0.0.1:8080/api/x'']]\<rparr>)) \<and>
   spread_headers (proxy_url example_proxy_conf example_ctx)
       (reqHeadersFiltered example_proxy_conf example_ctx) =
     [(''host'', ''127.0.0.1''), (''accept'', ''*/*'')] \<and>
   url_host (proxy_url example_proxy_conf example_ctx) = ''127.0.0.1:8080''"
  by (simp add: proxy_def Let_def request_def spread_headers_def reqHeadersFiltered_def
        resHeadersFiltered_def filter_keys_def starts_with_colon_def example_send_def obj_get_def
        example_ctx_def example_proxy_conf_def ctx_log_def ctx_set_def proxy_url_def
        set_host_def set_protocol_def special_scheme_def default_port_def url_href_def url_host_def)

section \<open>Properties of the static file handler\<close>


































end
